theory Spec2Isabelle
  imports Main "HOL-Library.AList"
begin

section \<open>Wire types of the auth endpoints\<close>

text \<open>
  The response codes are named constants of the api package; the handlers only compare and
  forward them, so they are an enumeration here.
\<close>

datatype RespCode = Ok | BadRequest | Unauthorized | InternalServerError

text \<open>\<^verbatim>\<open>type TokenType string\<close> with its one constant.\<close>

type_synonym TokenType = string

definition TokenBearer :: TokenType where
  "TokenBearer = ''Bearer''"

text \<open>
  Go struct embedding of \<^verbatim>\<open>Resp\<close> is record extension. A Go \<^verbatim>\<open>error\<close> is represented by
  the message its \<^verbatim>\<open>Error()\<close> method returns.
\<close>

record Resp =
  ResponseCode :: RespCode

record ErrorResp = Resp +
  Error :: string
  ErrorDescription :: string

record AuthReq =
  ClientID :: string
  ClientSecret :: string
  Username :: string
  Password :: string
  TwoFactorCode :: string

record AuthCookie =
  AccessToken :: string
  Uid :: string

record AuthCookiesResp = Resp +
  SessionToken :: string

record AuthResp = Resp +
  AccessToken :: string
  ExpiresIn :: int
  TokenType :: TokenType
  Scope :: string
  Uid :: string
  RefreshToken :: string
  UserStatus :: int
  PrivateKey :: string
  KeySalt :: string
  EventID :: string

text \<open>
  What a handler passes to \<^verbatim>\<open>ctx.JSON\<close>. \<open>NewErrorResp msg\<close> stands for the value of the
  helper call \<^verbatim>\<open>newErrorResp(err)\<close> on an error with message \<open>msg\<close>; the helper is
  defined elsewhere in the package.
\<close>

datatype Body =
    RespBody Resp
  | ErrorBody ErrorResp
  | NewErrorResp string
  | AuthBody AuthResp
  | AuthCookiesBody AuthCookiesResp

text \<open>
  Modelled from the spec: \<^verbatim>\<open>newErrorResp\<close> is defined outside \<^verbatim>\<open>auth.go\<close>. The specification
  (testable properties) says the error response built from an error carries that error's
  message as its description; nothing is said about its code or error kind.
\<close>

fun description :: "Body \<Rightarrow> string option" where
  "description (ErrorBody e) = Some (ErrorDescription e)"
| "description (NewErrorResp msg) = Some msg"
| "description _ = None"

section \<open>Request context\<close>

text \<open>
  The value of a cookie is a string; \<^verbatim>\<open>json.Marshal\<close> of an \<^verbatim>\<open>AuthCookie\<close> is kept
  as the structure it serialises.
\<close>

datatype CookieValue = Text string | Marshal AuthCookie

record Cookie =
  name :: string
  cvalue :: CookieValue
  maxAge :: int
  path :: string
  domain :: string
  secure :: bool
  httpOnly :: bool

text \<open>
  The macaron context as far as the handlers touch it. Inputs: the results of the helpers
  \<^verbatim>\<open>api.getUid(ctx)\<close> and \<^verbatim>\<open>api.getSessionToken(ctx)\<close> (both defined elsewhere in the package,
  so their results are fields of the request) and the lookup
  \<^verbatim>\<open>ctx.Req.Header["Authorization"]\<close>, \<open>None\<close> when the key is absent. Outputs: the
  cookies set and the JSON replies written, oldest first.
\<close>

record Ctx =
  getUid :: string
  getSessionToken :: string
  Header_Authorization :: "string list option"
  cookies :: "Cookie list"
  written :: "(nat \<times> Body) list"

definition SetCookie :: "string \<Rightarrow> CookieValue \<Rightarrow> int \<Rightarrow> string \<Rightarrow> string \<Rightarrow> bool \<Rightarrow> bool
    \<Rightarrow> Ctx \<Rightarrow> Ctx" where
  "SetCookie n v age p d sec ho ctx =
     ctx\<lparr>cookies := cookies ctx @
       [\<lparr>name = n, cvalue = v, maxAge = age, path = p, domain = d, secure = sec,
         httpOnly = ho\<rparr>]\<rparr>"

definition JSON :: "nat \<Rightarrow> Body \<Rightarrow> Ctx \<Rightarrow> Ctx" where
  "JSON status b ctx = ctx\<lparr>written := written ctx @ [(status, b)]\<rparr>"

section \<open>Sessions and the registry\<close>

record Event =
  ID :: string

record Session =
  ID :: string
  UserID :: string
  Token :: string

text \<open>
  The server state: \<^verbatim>\<open>api.sessions\<close>, a Go map from session ID to session, as the list of
  its entries (\<open>map_of\<close> looks a key up, \<open>AList.update\<close> stores, \<open>AList.delete\<close> deletes,
  and a \<^verbatim>\<open>range\<close> loop visits the entries). \<open>DeleteAllEvents_calls\<close> records the user
  IDs passed to \<^verbatim>\<open>api.backend.DeleteAllEvents\<close>, \<open>onClose_calls\<close> the IDs of the sessions
  whose teardown closure has been run; both oldest first.
\<close>

record Api =
  sessions :: "(string \<times> Session) list"
  DeleteAllEvents_calls :: "string list"
  onClose_calls :: "string list"

text \<open>
  Modelled from the spec: \<^verbatim>\<open>NewSession\<close> is defined outside \<^verbatim>\<open>auth.go\<close>. By the registry
  contract it allocates a fresh ID and a fresh token for the given user; the two generated
  strings are parameters here.
\<close>

definition NewSession :: "string \<Rightarrow> string \<Rightarrow> string \<Rightarrow> Session" where
  "NewSession fresh_id fresh_token userID =
     \<lparr>Session.ID = fresh_id, UserID = userID, Token = fresh_token\<rparr>"

text \<open>
  The loop \<^verbatim>\<open>for _, s := range api.sessions { if s.UserID == session.UserID { return } }\<close>:
  \<open>True\<close> when the loop returns early.
\<close>

fun remaining_session :: "string \<Rightarrow> (string \<times> Session) list \<Rightarrow> bool" where
  "remaining_session u [] = False"
| "remaining_session u ((k, s) # rest) =
     (if UserID s = u then True else remaining_session u rest)"

text \<open>
  The closure handed to \<^verbatim>\<open>NewSession\<close> in \<^verbatim>\<open>Auth\<close>. It captures \<^verbatim>\<open>api\<close> and the
  variable \<^verbatim>\<open>session\<close>; every session of the registry is created there, so the closure
  is a function of the session it belongs to.
\<close>

definition onClose :: "Session \<Rightarrow> Api \<Rightarrow> Api" where
  "onClose session api =
     (let api1 = api\<lparr>sessions := AList.delete (Session.ID session) (sessions api),
                     onClose_calls := onClose_calls api @ [Session.ID session]\<rparr>
      in if remaining_session (UserID session) (sessions api1) then api1
         else api1\<lparr>DeleteAllEvents_calls :=
                      DeleteAllEvents_calls api1 @ [UserID session]\<rparr>)"

section \<open>Collaborators\<close>

text \<open>
  The backend and the user, address and key types belong to the backend package; the
  calls the handlers make on them are the fields of this record. \<open>'u\<close> is the user type,
  \<open>'k\<close> the key pair type. A call that returns \<^verbatim>\<open>(value, error)\<close> gives \<open>Inl\<close> of the
  error's message or \<open>Inr\<close> of the value. \<^verbatim>\<open>populateCurrentUser\<close> fills the user
  structure in place, so it returns the filled user. \<open>fresh_ID\<close> and \<open>fresh_Token\<close> are the
  two strings that \<^verbatim>\<open>NewSession\<close> generates during the request.
\<close>

record ('u, 'k) Env =
  backend_Auth :: "string \<Rightarrow> string \<Rightarrow> string + 'u"
  populateCurrentUser :: "'u \<Rightarrow> string + 'u"
  User_ID :: "'u \<Rightarrow> string"
  GetMainAddress_Keys :: "'u \<Rightarrow> 'k list"
  Keypair_PrivateKey :: "'k \<Rightarrow> string"
  Keypair_Encrypt :: "'k \<Rightarrow> string \<Rightarrow> string + string"
  backend_GetLastEvent :: "string \<Rightarrow> string + Event"
  fresh_ID :: string
  fresh_Token :: string

section \<open>Handlers\<close>

definition Auth :: "('u, 'k) Env \<Rightarrow> Api \<Rightarrow> Ctx \<Rightarrow> AuthReq \<Rightarrow> Api \<times> Ctx" where
  "Auth env api ctx req =
     (case backend_Auth env (Username req) (Password req) of
        Inl err \<Rightarrow>
          (api, JSON 200 (ErrorBody \<lparr>ResponseCode = Unauthorized, Error = ''invalid_grant'',
                                     ErrorDescription = err\<rparr>) ctx)
      | Inr user0 \<Rightarrow>
         (case populateCurrentUser env user0 of
            Inl err \<Rightarrow> (api, JSON 200 (NewErrorResp err) ctx)
          | Inr user \<Rightarrow>
             (let session = NewSession (fresh_ID env) (fresh_Token env) (User_ID env user);
                  api1 = api\<lparr>sessions :=
                           AList.update (Session.ID session) session (sessions api)\<rparr>
              in case GetMainAddress_Keys env user of
                   [] \<Rightarrow> (api1, JSON 200 (NewErrorResp ''User has no private key'') ctx)
                 | kp # _ \<Rightarrow>
                    (case Keypair_Encrypt env kp (Token session) of
                       Inl err \<Rightarrow>
                         (api1, JSON 200 (ErrorBody \<lparr>ResponseCode = InternalServerError,
                                   Error = ''invalid_key'', ErrorDescription = err\<rparr>) ctx)
                     | Inr encryptedToken \<Rightarrow>
                        (case backend_GetLastEvent env (User_ID env user) of
                           Inl err \<Rightarrow> (api1, JSON 500 (NewErrorResp err) ctx)
                         | Inr lastEvent \<Rightarrow>
                            (api1, JSON 200 (AuthBody
                               \<lparr>ResponseCode = Ok,
                                AuthResp.AccessToken = encryptedToken,
                                ExpiresIn = 360000,
                                TokenType = TokenBearer,
                                Scope = ''full mail payments reset keys'',
                                Uid = Session.ID session,
                                RefreshToken = ''refresh_token'',
                                UserStatus = 0,
                                PrivateKey = Keypair_PrivateKey env kp,
                                KeySalt = [],
                                EventID = Event.ID lastEvent\<rparr>) ctx))))))"

text \<open>
  \<^verbatim>\<open>strings.SplitN(s, sep, n)\<close> for a one-byte separator and \<open>n \<ge> 0\<close>: no parts for
  \<open>n = 0\<close>, at most \<open>n\<close> parts otherwise, the last one being the unsplit remainder.
\<close>

fun SplitN :: "string \<Rightarrow> char \<Rightarrow> nat \<Rightarrow> string list" where
  "SplitN s sep 0 = []"
| "SplitN s sep (Suc 0) = [s]"
| "SplitN s sep (Suc (Suc n)) =
     (case dropWhile (\<lambda>c. c \<noteq> sep) s of
        [] \<Rightarrow> [s]
      | _ # rest \<Rightarrow> takeWhile (\<lambda>c. c \<noteq> sep) s # SplitN rest sep (Suc n))"

text \<open>
  The handler writes the same literal error response at three places; the abbreviation
  stands for that literal.
\<close>

abbreviation invalid_authorization :: Body where
  "invalid_authorization \<equiv>
     ErrorBody \<lparr>ResponseCode = BadRequest, Error = ''invalid_authorization'',
                ErrorDescription = ''Invalid authorization header''\<rparr>"

definition AuthCookies :: "Api \<Rightarrow> Ctx \<Rightarrow> Api \<times> Ctx" where
  "AuthCookies api ctx =
     (let uid = getUid ctx in
      if uid = [] then
        (api, JSON 200 (ErrorBody \<lparr>ResponseCode = BadRequest, Error = ''invalid_grant'',
                                   ErrorDescription = ''No uid provided''\<rparr>) ctx)
      else case map_of (sessions api) uid of
        None \<Rightarrow>
          (api, JSON 200 (ErrorBody \<lparr>ResponseCode = BadRequest, Error = ''invalid_session'',
                                     ErrorDescription = ''Invalid UID''\<rparr>) ctx)
      | Some session \<Rightarrow>
         (case Header_Authorization ctx of
            None \<Rightarrow> (api, JSON 200 invalid_authorization ctx)
          | Some [] \<Rightarrow> (api, JSON 200 invalid_authorization ctx)
          | Some (auth0 # _) \<Rightarrow>
             (case SplitN auth0 CHR '' '' 2 of
                [tokenType, token] \<Rightarrow>
                  if tokenType \<noteq> TokenBearer \<or> token \<noteq> Token session then
                    (api, JSON 200 invalid_authorization ctx)
                  else
                    (api, JSON 200 (AuthCookiesBody
                            \<lparr>ResponseCode = Ok, SessionToken = Token session\<rparr>)
                       (SetCookie (''AUTH-'' @ Token session)
                          (Marshal \<lparr>AuthCookie.AccessToken = Token session,
                                    Uid = Session.ID session\<rparr>)
                          0 ''/api/'' [] False True ctx))
              | _ \<Rightarrow> (api, JSON 200 invalid_authorization ctx))))"

definition DeleteAuth :: "Api \<Rightarrow> Ctx \<Rightarrow> Api \<times> Ctx" where
  "DeleteAuth api ctx =
     (let sessionToken = getSessionToken ctx in
      if sessionToken \<noteq> [] then
        (api\<lparr>sessions := AList.delete ''sessionToken'' (sessions api)\<rparr>,
         JSON 200 (RespBody \<lparr>ResponseCode = Ok\<rparr>)
           (SetCookie (''AUTH-'' @ sessionToken) (Text []) 0 ''/api/'' [] False True ctx))
      else (api, JSON 200 (RespBody \<lparr>ResponseCode = Ok\<rparr>) ctx))"

section \<open>Auxiliary notions for the statements\<close>

text \<open>
  The words of the specification, "space-separated tokens" of a header value: the value
  split at every space (\<^verbatim>\<open>strings.Split\<close>). A string of length \<open>n\<close> has at most \<open>n\<close>
  separators, so \<open>n + 1\<close> parts are never exceeded.
\<close>

definition space_separated_tokens :: "string \<Rightarrow> string list" where
  "space_separated_tokens h = SplitN h CHR '' '' (Suc (length h))"



text \<open>
  A sample collaborator for concrete runs: one account, \<open>alice\<close> with password
  \<open>secret\<close> and user ID \<open>u1\<close>, whose main address has the keys given as parameter. Users
  are represented by their ID and key pairs by their private key.
\<close>

definition sample_env :: "string list \<Rightarrow> (string, string) Env" where
  "sample_env keys =
     \<lparr>backend_Auth = (\<lambda>username password.
          if username = ''alice'' \<and> password = ''secret'' then Inr ''u1''
          else Inl ''Wrong username or password''),
      populateCurrentUser = Inr,
      User_ID = (\<lambda>u. u),
      GetMainAddress_Keys = (\<lambda>u. keys),
      Keypair_PrivateKey = (\<lambda>k. k),
      Keypair_Encrypt = (\<lambda>k token. Inr (k @ token)),
      backend_GetLastEvent = (\<lambda>u. Inr \<lparr>Event.ID = ''e0''\<rparr>),
      fresh_ID = ''id1'',
      fresh_Token = ''tok1''\<rparr>"

definition login :: "string \<Rightarrow> string \<Rightarrow> AuthReq" where
  "login username password =
     \<lparr>ClientID = ''web'', ClientSecret = [], Username = username, Password = password,
      TwoFactorCode = []\<rparr>"

definition request :: "string \<Rightarrow> string \<Rightarrow> string list option \<Rightarrow> Ctx" where
  "request uid session_token authorization =
     \<lparr>getUid = uid, getSessionToken = session_token, Header_Authorization = authorization,
      cookies = [], written = []\<rparr>"

definition registry :: "Session list \<Rightarrow> Api" where
  "registry ss =
     \<lparr>sessions = map (\<lambda>s. (Session.ID s, s)) ss, DeleteAllEvents_calls = [],
      onClose_calls = []\<rparr>"

section \<open>Facts about the registry and the header split\<close>

lemma remaining_session_delete:
  "remaining_session u (AList.delete i al) \<longleftrightarrow>
     (\<exists>(k, s') \<in> set al. k \<noteq> i \<and> UserID s' = u)"
  by (induction al) (auto simp add: AList.delete_eq)

lemma onClose_sessions:
  "sessions (onClose s api) = AList.delete (Session.ID s) (sessions api)"
  by (simp add: onClose_def Let_def)

lemma SplitN_Bearer:
  "SplitN (''Bearer '' @ rest) CHR '' '' 2 = [''Bearer'', rest]"
  by (simp add: numeral_2_eq_2)






















section \<open>Revocation\<close>

text \<open>
  Claim C1: every revocation that resolves a non-empty session token removes the registry
  entry of that session, so that no session for the token remains.

  The handler deletes the entry under the literal key \<open>''sessionToken''\<close>, not under the
  value of its variable. With one session \<open>id1\<close> (token \<open>tok1\<close>) in the registry, revoking
  with the resolved token \<open>tok1\<close> leaves the session where it was; so does revoking with
  the session's ID.
\<close>

theorem DeleteAuth_keeps_revoked_session:
  "sessions (fst (DeleteAuth
      (registry [\<lparr>Session.ID = ''id1'', UserID = ''u1'', Token = ''tok1''\<rparr>])
      (request ''id1'' ''tok1'' None)))
     = [(''id1'', \<lparr>Session.ID = ''id1'', UserID = ''u1'', Token = ''tok1''\<rparr>)] \<and>
   sessions (fst (DeleteAuth
      (registry [\<lparr>Session.ID = ''id1'', UserID = ''u1'', Token = ''tok1''\<rparr>])
      (request ''id1'' ''id1'' None)))
     = [(''id1'', \<lparr>Session.ID = ''id1'', UserID = ''u1'', Token = ''tok1''\<rparr>)]"
  by (simp add: DeleteAuth_def Let_def AList.delete_eq registry_def request_def)



text \<open>
  Claim C9: every revocation request answers with the generic success envelope (status 200,
  response code \<open>Ok\<close>), whether or not a token was resolved and whether or not a session
  existed for it. It is the only reply the handler writes.
\<close>

theorem DeleteAuth_always_Ok:
  "written (snd (DeleteAuth api ctx)) =
     written ctx @ [(200, RespBody \<lparr>ResponseCode = Ok\<rparr>)]"
  by (simp add: DeleteAuth_def Let_def JSON_def SetCookie_def)

section \<open>Teardown\<close>

text \<open>
  Claim C3: when the teardown closure of a session runs, the session is removed from the
  registry (the other entries stay), and \<^verbatim>\<open>DeleteAllEvents\<close> is called for its user if and
  only if no other entry of the registry belongs to the same user; with a second session
  of that user present no call is made.
\<close>

theorem onClose_teardown:
  "map_of (sessions (onClose s api)) (Session.ID s) = None \<and>
   (\<forall>k. k \<noteq> Session.ID s \<longrightarrow>
        map_of (sessions (onClose s api)) k = map_of (sessions api) k) \<and>
   DeleteAllEvents_calls (onClose s api) =
     (if \<exists>(k, s') \<in> set (sessions api). k \<noteq> Session.ID s \<and> UserID s' = UserID s
      then DeleteAllEvents_calls api
      else DeleteAllEvents_calls api @ [UserID s])"
proof (intro conjI)
  show "map_of (sessions (onClose s api)) (Session.ID s) = None"
    by (simp add: onClose_sessions AList.delete_conv)
  show "\<forall>k. k \<noteq> Session.ID s \<longrightarrow>
          map_of (sessions (onClose s api)) k = map_of (sessions api) k"
    by (simp add: onClose_sessions AList.delete_conv)
  show "DeleteAllEvents_calls (onClose s api) =
     (if \<exists>(k, s') \<in> set (sessions api). k \<noteq> Session.ID s \<and> UserID s' = UserID s
      then DeleteAllEvents_calls api
      else DeleteAllEvents_calls api @ [UserID s])"
    by (simp add: onClose_def Let_def remaining_session_delete)
qed

theorem onClose_teardown_witness:
  "map_of (sessions (onClose \<lparr>Session.ID = ''id1'', UserID = ''u1'', Token = ''tok1''\<rparr>
      (registry [\<lparr>Session.ID = ''id1'', UserID = ''u1'', Token = ''tok1''\<rparr>,
                 \<lparr>Session.ID = ''id2'', UserID = ''u1'', Token = ''tok2''\<rparr>]))) ''id1'' = None \<and>
   DeleteAllEvents_calls (onClose \<lparr>Session.ID = ''id1'', UserID = ''u1'', Token = ''tok1''\<rparr>
      (registry [\<lparr>Session.ID = ''id1'', UserID = ''u1'', Token = ''tok1''\<rparr>,
                 \<lparr>Session.ID = ''id2'', UserID = ''u1'', Token = ''tok2''\<rparr>])) = [] \<and>
   DeleteAllEvents_calls (onClose \<lparr>Session.ID = ''id1'', UserID = ''u1'', Token = ''tok1''\<rparr>
      (registry [\<lparr>Session.ID = ''id1'', UserID = ''u1'', Token = ''tok1''\<rparr>,
                 \<lparr>Session.ID = ''id3'', UserID = ''u2'', Token = ''tok3''\<rparr>])) = [''u1'']"
  using
    onClose_teardown [of "\<lparr>Session.ID = ''id1'', UserID = ''u1'', Token = ''tok1''\<rparr>"
      "registry [\<lparr>Session.ID = ''id1'', UserID = ''u1'', Token = ''tok1''\<rparr>,
                 \<lparr>Session.ID = ''id2'', UserID = ''u1'', Token = ''tok2''\<rparr>]"]
    onClose_teardown [of "\<lparr>Session.ID = ''id1'', UserID = ''u1'', Token = ''tok1''\<rparr>"
      "registry [\<lparr>Session.ID = ''id1'', UserID = ''u1'', Token = ''tok1''\<rparr>,
                 \<lparr>Session.ID = ''id3'', UserID = ''u2'', Token = ''tok3''\<rparr>]"]
  by (simp add: registry_def)

section \<open>Login\<close>

text \<open>
  Claim C5: when credential verification fails, the login handler answers (status 200)
  with code \<open>Unauthorized\<close>, error \<open>invalid_grant\<close> and the collaborator's message as
  description, and creates no session: the server state is the one before the request.
\<close>

theorem Auth_invalid_grant:
  "backend_Auth env (Username req) (Password req) = Inl msg \<Longrightarrow>
   Auth env api ctx req =
     (api, JSON 200 (ErrorBody \<lparr>ResponseCode = Unauthorized, Error = ''invalid_grant'',
                               ErrorDescription = msg\<rparr>) ctx)"
  by (simp add: Auth_def)

theorem Auth_invalid_grant_witness:
  "backend_Auth (sample_env [''key1'']) (Username (login ''mallory'' ''guess''))
       (Password (login ''mallory'' ''guess'')) = Inl ''Wrong username or password'' \<and>
   Auth (sample_env [''key1''])
       (registry [\<lparr>Session.ID = ''id0'', UserID = ''u1'', Token = ''tok0''\<rparr>])
       (request [] [] None) (login ''mallory'' ''guess'') =
     (registry [\<lparr>Session.ID = ''id0'', UserID = ''u1'', Token = ''tok0''\<rparr>],
      JSON 200 (ErrorBody \<lparr>ResponseCode = Unauthorized, Error = ''invalid_grant'',
                  ErrorDescription = ''Wrong username or password''\<rparr>) (request [] [] None))"
  using Auth_invalid_grant [of "sample_env [''key1'']" "login ''mallory'' ''guess''"
      "''Wrong username or password''"
      "registry [\<lparr>Session.ID = ''id0'', UserID = ''u1'', Token = ''tok0''\<rparr>]"
      "request [] [] None"]
  by (simp add: sample_env_def login_def)

text \<open>
  Claim C4: when credential verification and the population of the user succeed and the
  user's main address has no key, the login handler answers with the error built from
  the message \<open>User has no private key\<close> (that message is the reply's description), and
  the session stored just before stays in the registry under its ID.
\<close>

theorem Auth_no_private_key:
  assumes "backend_Auth env (Username req) (Password req) = Inr user0"
    and "populateCurrentUser env user0 = Inr user"
    and "GetMainAddress_Keys env user = []"
  shows "snd (Auth env api ctx req) =
           JSON 200 (NewErrorResp ''User has no private key'') ctx \<and>
         description (NewErrorResp ''User has no private key'') =
           Some ''User has no private key'' \<and>
         map_of (sessions (fst (Auth env api ctx req))) (fresh_ID env) =
           Some \<lparr>Session.ID = fresh_ID env, UserID = User_ID env user,
                  Token = fresh_Token env\<rparr>"
  using assms by (simp add: Auth_def Let_def NewSession_def AList.update_conv')

theorem Auth_no_private_key_witness:
  "backend_Auth (sample_env []) (Username (login ''alice'' ''secret''))
       (Password (login ''alice'' ''secret'')) = Inr ''u1'' \<and>
   populateCurrentUser (sample_env []) ''u1'' = Inr ''u1'' \<and>
   GetMainAddress_Keys (sample_env []) ''u1'' = [] \<and>
   snd (Auth (sample_env []) (registry []) (request [] [] None) (login ''alice'' ''secret'')) =
     JSON 200 (NewErrorResp ''User has no private key'') (request [] [] None) \<and>
   map_of (sessions (fst (Auth (sample_env []) (registry []) (request [] [] None)
       (login ''alice'' ''secret'')))) ''id1'' =
     Some \<lparr>Session.ID = ''id1'', UserID = ''u1'', Token = ''tok1''\<rparr>"
  using Auth_no_private_key [of "sample_env []" "login ''alice'' ''secret''" "''u1''" "''u1''"
      "registry []" "request [] [] None"]
  by (simp add: sample_env_def login_def)

section \<open>Cookie promotion\<close>

text \<open>
  Claim C6: for a session of the registry with token \<open>T\<close> and ID \<open>U\<close>, a cookie-promotion
  request that carries the session identifier \<open>U\<close> and the header value \<open>Bearer T\<close> succeeds:
  the registry is left as it is, the cookie \<open>AUTH-T\<close> is set with the marshalled pair
  \<open>AccessToken = T\<close>, \<open>UID = U\<close> (path \<open>/api/\<close>, age 0, not secure, HTTP-only), and the
  reply is status 200 with code \<open>Ok\<close> and \<open>SessionToken = T\<close>.

  A request carries an identifier when \<^verbatim>\<open>getUid\<close> returns a non-empty string: the handler
  takes the empty string for "No uid provided". Further values of the header are ignored.
\<close>

theorem AuthCookies_round_trip:
  assumes "map_of (sessions api) U = Some s" and "Session.ID s = U" and "Token s = T"
    and "getUid ctx = U" and "getUid ctx \<noteq> []"
    and "Header_Authorization ctx = Some ((''Bearer '' @ T) # others)"
  shows "AuthCookies api ctx =
     (api, JSON 200 (AuthCookiesBody \<lparr>ResponseCode = Ok, SessionToken = T\<rparr>)
        (SetCookie (''AUTH-'' @ T) (Marshal \<lparr>AuthCookie.AccessToken = T, Uid = U\<rparr>)
           0 ''/api/'' [] False True ctx))"
  using assms by (simp add: AuthCookies_def Let_def SplitN_Bearer [simplified] TokenBearer_def)

theorem AuthCookies_round_trip_witness:
  "map_of (sessions (registry [\<lparr>Session.ID = ''id1'', UserID = ''u1'', Token = ''tok1''\<rparr>]))
       ''id1'' = Some \<lparr>Session.ID = ''id1'', UserID = ''u1'', Token = ''tok1''\<rparr> \<and>
   getUid (request ''id1'' [] (Some [''Bearer tok1''])) \<noteq> [] \<and>
   AuthCookies (registry [\<lparr>Session.ID = ''id1'', UserID = ''u1'', Token = ''tok1''\<rparr>])
       (request ''id1'' [] (Some [''Bearer tok1''])) =
     (registry [\<lparr>Session.ID = ''id1'', UserID = ''u1'', Token = ''tok1''\<rparr>],
      \<lparr>getUid = ''id1'', getSessionToken = [],
        Header_Authorization = Some [''Bearer tok1''],
        cookies = [\<lparr>name = ''AUTH-tok1'',
                     cvalue = Marshal \<lparr>AuthCookie.AccessToken = ''tok1'', Uid = ''id1''\<rparr>,
                     maxAge = 0, path = ''/api/'', domain = [], secure = False,
                     httpOnly = True\<rparr>],
        written = [(200, AuthCookiesBody \<lparr>ResponseCode = Ok, SessionToken = ''tok1''\<rparr>)]\<rparr>)"
  using AuthCookies_round_trip [of
      "registry [\<lparr>Session.ID = ''id1'', UserID = ''u1'', Token = ''tok1''\<rparr>]" "''id1''"
      "\<lparr>Session.ID = ''id1'', UserID = ''u1'', Token = ''tok1''\<rparr>" "''tok1''"
      "request ''id1'' [] (Some [''Bearer tok1''])" "[]"]
  by (simp add: registry_def request_def JSON_def SetCookie_def)



text \<open>
  Claim C8: no cookie-promotion request, accepted or rejected, changes the server state:
  the registry and each session in it are the ones before the request. At most one cookie
  is added, and when one is added it is named after the token of the session stored under
  the request's identifier and carries that session's token and ID.
\<close>

theorem AuthCookies_reads_only:
  "fst (AuthCookies api ctx) = api \<and>
   (cookies (snd (AuthCookies api ctx)) = cookies ctx \<or>
    (\<exists>s. map_of (sessions (fst (AuthCookies api ctx))) (getUid ctx) = Some s \<and>
       cookies (snd (AuthCookies api ctx)) = cookies ctx @
         [\<lparr>name = ''AUTH-'' @ Token s,
           cvalue = Marshal \<lparr>AuthCookie.AccessToken = Token s, Uid = Session.ID s\<rparr>,
           maxAge = 0, path = ''/api/'', domain = [], secure = False, httpOnly = True\<rparr>]))"
  by (simp add: AuthCookies_def Let_def JSON_def SetCookie_def
        split: option.split list.split)

theorem AuthCookies_reads_only_witness:
  "fst (AuthCookies (registry [\<lparr>Session.ID = ''id1'', UserID = ''u1'', Token = ''tok1''\<rparr>])
       (request ''id1'' [] (Some [''Bearer tok1'']))) =
     registry [\<lparr>Session.ID = ''id1'', UserID = ''u1'', Token = ''tok1''\<rparr>] \<and>
   fst (AuthCookies (registry [\<lparr>Session.ID = ''id1'', UserID = ''u1'', Token = ''tok1''\<rparr>])
       (request ''id1'' [] (Some [''Basic tok1'']))) =
     registry [\<lparr>Session.ID = ''id1'', UserID = ''u1'', Token = ''tok1''\<rparr>]"
  using
    AuthCookies_reads_only [of
      "registry [\<lparr>Session.ID = ''id1'', UserID = ''u1'', Token = ''tok1''\<rparr>]"
      "request ''id1'' [] (Some [''Bearer tok1''])"]
    AuthCookies_reads_only [of
      "registry [\<lparr>Session.ID = ''id1'', UserID = ''u1'', Token = ''tok1''\<rparr>]"
      "request ''id1'' [] (Some [''Basic tok1''])"]
  by simp

text \<open>
  Claim C10: the header is split at the first space only. For a request that reaches the
  header check (non-empty identifier resolving to a session) with a header value
  \<open>Bearer rest\<close>, whatever \<open>rest\<close> is and in particular when it contains spaces itself, the
  split yields the two parts \<open>Bearer\<close> and \<open>rest\<close>, so the two-part check passes, and the
  request succeeds exactly when \<open>rest\<close> is the session's token; otherwise it is rejected
  with \<open>invalid_authorization\<close>. A token with spaces in it is accepted this way.
\<close>

theorem AuthCookies_first_space_only:
  assumes "getUid ctx \<noteq> []" and "map_of (sessions api) (getUid ctx) = Some s"
    and "Header_Authorization ctx = Some ((''Bearer '' @ rest) # others)"
  shows "SplitN (''Bearer '' @ rest) CHR '' '' 2 = [''Bearer'', rest] \<and>
     AuthCookies api ctx =
       (if rest = Token s
        then (api, JSON 200 (AuthCookiesBody \<lparr>ResponseCode = Ok, SessionToken = Token s\<rparr>)
               (SetCookie (''AUTH-'' @ Token s)
                  (Marshal \<lparr>AuthCookie.AccessToken = Token s, Uid = Session.ID s\<rparr>)
                  0 ''/api/'' [] False True ctx))
        else (api, JSON 200 invalid_authorization ctx))"
  using assms by (simp add: AuthCookies_def Let_def SplitN_Bearer [simplified] TokenBearer_def)

theorem AuthCookies_first_space_only_witness:
  "length (space_separated_tokens ''Bearer a b c'') = 4 \<and>
   SplitN ''Bearer a b c'' CHR '' '' 2 = [''Bearer'', ''a b c''] \<and>
   written (snd (AuthCookies
      (registry [\<lparr>Session.ID = ''id1'', UserID = ''u1'', Token = ''a b c''\<rparr>])
      (request ''id1'' [] (Some [''Bearer a b c''])))) =
     [(200, AuthCookiesBody \<lparr>ResponseCode = Ok, SessionToken = ''a b c''\<rparr>)] \<and>
   written (snd (AuthCookies
      (registry [\<lparr>Session.ID = ''id1'', UserID = ''u1'', Token = ''a b''\<rparr>])
      (request ''id1'' [] (Some [''Bearer a b c''])))) =
     [(200, invalid_authorization)]"
  using
    AuthCookies_first_space_only [of "request ''id1'' [] (Some [''Bearer a b c''])"
      "registry [\<lparr>Session.ID = ''id1'', UserID = ''u1'', Token = ''a b c''\<rparr>]"
      "\<lparr>Session.ID = ''id1'', UserID = ''u1'', Token = ''a b c''\<rparr>" "''a b c''" "[]"]
    AuthCookies_first_space_only [of "request ''id1'' [] (Some [''Bearer a b c''])"
      "registry [\<lparr>Session.ID = ''id1'', UserID = ''u1'', Token = ''a b''\<rparr>]"
      "\<lparr>Session.ID = ''id1'', UserID = ''u1'', Token = ''a b''\<rparr>" "''a b c''" "[]"]
  by (simp add: registry_def request_def JSON_def SetCookie_def space_separated_tokens_def)

end
